theory Spec2Isabelle
  imports Main
begin

section \<open>Data model (app/models/schedule.py)\<close>

text \<open>
  A naive UTC \<^verbatim>\<open>datetime\<close> is modelled as the number of microseconds on the
  proleptic timeline (an unbounded integer); Python's range check on years 1..9999 is
  not modelled. Minute boundaries are the multiples of 60000000.
\<close>

type_synonym datetime = int

datatype ScheduleType = EMAIL | SMS | KAKAO

datatype ScheduleStatus = PENDING | PROCESSING | COMPLETED | FAILED | CANCELLED

text \<open>
  One row of the \<^verbatim>\<open>schedules\<close> table. The primary key column \<^verbatim>\<open>id\<close> is
  called \<open>schedule_id\<close> here. Nullable columns that the creation path never sets are
  options.
\<close>

record Schedule =
  schedule_id :: int
  api_key_id :: int
  schedule_name :: string
  schedule_type :: ScheduleType
  scheduled_at :: datetime
  timezone :: string
  payload :: string
  status :: ScheduleStatus
  executed_at :: "datetime option"
  max_retry :: int
  retry_count :: int
  retry_interval :: int
  result :: "string option"
  error_message :: "string option"
  created_at :: datetime
  updated_at :: datetime

text \<open>The table is the list of its rows, in storage order.\<close>

type_synonym table = "Schedule list"

section \<open>Schedule store (app/repositories/schedule_repository.py)\<close>

text \<open>\<^verbatim>\<open>self.db.query(Schedule).filter(Schedule.id == schedule_id).first()\<close>\<close>

definition first_by_id :: "table \<Rightarrow> int \<Rightarrow> Schedule option" where
  "first_by_id db sid = find (\<lambda>r. schedule_id r = sid) db"

text \<open>
  \<^verbatim>\<open>self.db.commit(); self.db.refresh(schedule)\<close>: the mutated object is written
  back to the rows carrying its primary key.
\<close>

definition commit :: "table \<Rightarrow> Schedule \<Rightarrow> table" where
  "commit db s = map (\<lambda>r. if schedule_id r = schedule_id s then s else r) db"

text \<open>\<^verbatim>\<open>datetime.replace(second=0, microsecond=0)\<close> and \<^verbatim>\<open>timedelta(seconds=n)\<close>.\<close>

definition replace_second_microsecond_zero :: "datetime \<Rightarrow> datetime" where
  "replace_second_microsecond_zero t = t - t mod 60000000"

definition timedelta_seconds :: "int \<Rightarrow> int" where
  "timedelta_seconds n = n * 1000000"

text \<open>Python truthiness of an \<^verbatim>\<open>Optional[str]\<close>: \<^verbatim>\<open>None\<close> and \<^verbatim>\<open>""\<close> are falsy.\<close>

fun truthy_str :: "string option \<Rightarrow> bool" where
  "truthy_str None = False"
| "truthy_str (Some v) = (v \<noteq> [])"

definition get_pending_schedules_by_time :: "table \<Rightarrow> datetime \<Rightarrow> Schedule list" where
  "get_pending_schedules_by_time db current_time =
     filter (\<lambda>r. scheduled_at r \<le> current_time \<and> status r = PENDING) db"

definition get_pending_schedules_by_time_and_type ::
  "table \<Rightarrow> datetime \<Rightarrow> ScheduleType \<Rightarrow> Schedule list" where
  "get_pending_schedules_by_time_and_type db current_time stype =
     filter (\<lambda>r. scheduled_at r \<le> current_time \<and> status r = PENDING
                 \<and> schedule_type r = stype) db"

text \<open>
  \<^verbatim>\<open>update_status\<close>. The last argument is the reading of \<^verbatim>\<open>datetime.utcnow()\<close>.
  A \<^verbatim>\<open>datetime\<close> object is always truthy, so \<^verbatim>\<open>if executed_at:\<close> tests for
  \<^verbatim>\<open>None\<close> only. The function returns the (possibly absent) row, as the source does.
\<close>

definition update_status ::
  "table \<Rightarrow> int \<Rightarrow> ScheduleStatus \<Rightarrow> datetime option \<Rightarrow> string option \<Rightarrow> datetime
     \<Rightarrow> table \<times> Schedule option" where
  "update_status db sid st executed_at_arg result_arg utcnow =
     (case first_by_id db sid of
        None \<Rightarrow> (db, None)
      | Some schedule \<Rightarrow>
          (let s1 = schedule\<lparr>status := st\<rparr>;
               s2 = (case executed_at_arg of
                       Some t \<Rightarrow> s1\<lparr>executed_at := Some t\<rparr>
                     | None \<Rightarrow> s1);
               s3 = (if truthy_str result_arg then s2\<lparr>result := result_arg\<rparr> else s2);
               s4 = s3\<lparr>updated_at := utcnow\<rparr>
           in (commit db s4, Some s4)))"

text \<open>
  \<^verbatim>\<open>handle_failure\<close>. The source reads the clock twice: \<open>utcnow1\<close> goes to
  \<^verbatim>\<open>updated_at\<close>, \<open>utcnow2\<close> is the base of the deferred \<^verbatim>\<open>scheduled_at\<close>.
\<close>

definition handle_failure ::
  "table \<Rightarrow> int \<Rightarrow> string \<Rightarrow> datetime \<Rightarrow> datetime \<Rightarrow> table \<times> Schedule option" where
  "handle_failure db sid msg utcnow1 utcnow2 =
     (case first_by_id db sid of
        None \<Rightarrow> (db, None)
      | Some schedule \<Rightarrow>
          (let s1 = schedule\<lparr>retry_count := retry_count schedule + 1\<rparr>;
               s2 = s1\<lparr>error_message := Some msg\<rparr>;
               s3 = s2\<lparr>updated_at := utcnow1\<rparr>;
               s4 = (if retry_count s3 \<ge> max_retry s3
                     then s3\<lparr>status := FAILED\<rparr>
                     else s3\<lparr>status := PENDING,
                             scheduled_at := replace_second_microsecond_zero utcnow2
                                             + timedelta_seconds (retry_interval s3)\<rparr>)
           in (commit db s4, Some s4)))"

text \<open>\<^verbatim>\<open>create\<close>: the new row gets the next free primary key and the insertion time.\<close>

definition create ::
  "table \<Rightarrow> int \<Rightarrow> datetime \<Rightarrow> int \<Rightarrow> string \<Rightarrow> ScheduleType \<Rightarrow> datetime \<Rightarrow> string \<Rightarrow> string
     \<Rightarrow> int \<Rightarrow> int \<Rightarrow> table \<times> Schedule" where
  "create db new_id utcnow akid label stype sched_at pl tz maxr interval =
     (let schedule = \<lparr>schedule_id = new_id, api_key_id = akid, schedule_name = label,
                       schedule_type = stype, scheduled_at = sched_at, timezone = tz,
                       payload = pl, status = PENDING, executed_at = None,
                       max_retry = maxr, retry_count = 0, retry_interval = interval,
                       result = None, error_message = None,
                       created_at = utcnow, updated_at = utcnow\<rparr>
      in (db @ [schedule], schedule))"

section \<open>Schedule execution engine (app/routers/email_router.py)\<close>

text \<open>
  The outcome of the body of one execution unit between the two status updates: decoding
  the payload, building the request, creating the \<^verbatim>\<open>EmailService\<close> and sending.
  \<open>Sent r\<close> carries \<^verbatim>\<open>json.dumps(result)\<close>, \<open>Raised e\<close> carries \<^verbatim>\<open>str(e)\<close> of
  whatever exception reached the \<^verbatim>\<open>except Exception\<close> clause. The provider is an
  external collaborator, so the outcome is a parameter of the model.
\<close>

datatype attempt = Sent string | Raised string

text \<open>The readings of \<^verbatim>\<open>datetime.utcnow()\<close> made by one execution unit, in source order.\<close>

record unit_clock =
  t_processing :: datetime
  t_executed :: datetime
  t_completed :: datetime
  t_failure :: datetime
  t_retry :: datetime

text \<open>
  \<^verbatim>\<open>execute_single_email_schedule(schedule, db)\<close>. Store operations are taken not to
  raise; every other exception is the \<open>Raised\<close> outcome.
\<close>

definition execute_single_email_schedule ::
  "(Schedule \<Rightarrow> attempt) \<Rightarrow> unit_clock \<Rightarrow> Schedule \<Rightarrow> table \<Rightarrow> table" where
  "execute_single_email_schedule send clk schedule db =
     (let db1 = fst (update_status db (schedule_id schedule) PROCESSING None None
                       (t_processing clk))
      in case send schedule of
           Sent res \<Rightarrow>
             fst (update_status db1 (schedule_id schedule) COMPLETED
                    (Some (t_executed clk)) (Some res) (t_completed clk))
         | Raised e \<Rightarrow>
             fst (handle_failure db1 (schedule_id schedule) e (t_failure clk) (t_retry clk)))"

text \<open>The entries of \<^verbatim>\<open>execution_details\<close>: id, name and, for a failed dispatch, the error.\<close>

datatype detail = Started int string | FailedToStart int string string

record EmailScheduleExecuteResponse =
  executed_count :: int
  failed_count :: int
  execution_time :: datetime
  details :: "detail list"

text \<open>
  The \<^verbatim>\<open>for schedule in pending_schedules\<close> loop. \<open>add_task\<close> is the dispatch mechanism
  \<^verbatim>\<open>background_tasks.add_task\<close>: \<open>None\<close> when it registers the unit, \<open>Some e\<close> when it
  raises with \<^verbatim>\<open>str(e) = e\<close>. The last component of the accumulator is the list of
  registered units.
\<close>

fun dispatch_loop ::
  "(Schedule \<Rightarrow> string option) \<Rightarrow> Schedule list
     \<Rightarrow> int \<times> int \<times> detail list \<times> Schedule list
     \<Rightarrow> int \<times> int \<times> detail list \<times> Schedule list" where
  "dispatch_loop add_task [] acc = acc"
| "dispatch_loop add_task (schedule # rest) (executed, failed, dets, tasks) =
     (case add_task schedule of
        None \<Rightarrow>
          dispatch_loop add_task rest
            (executed + 1, failed,
             dets @ [Started (schedule_id schedule) (schedule_name schedule)],
             tasks @ [schedule])
      | Some e \<Rightarrow>
          dispatch_loop add_task rest
            (executed, failed + 1,
             dets @ [FailedToStart (schedule_id schedule) (schedule_name schedule) e],
             tasks))"

text \<open>
  \<^verbatim>\<open>execute_pending_email_schedules\<close>: the handler reads the table, registers the
  units and returns; it writes nothing.
\<close>

definition execute_pending_email_schedules ::
  "(Schedule \<Rightarrow> string option) \<Rightarrow> datetime \<Rightarrow> table
     \<Rightarrow> EmailScheduleExecuteResponse \<times> Schedule list" where
  "execute_pending_email_schedules add_task current_time db =
     (let pending_schedules =
            get_pending_schedules_by_time_and_type db current_time EMAIL;
          (executed, failed, dets, tasks) =
            dispatch_loop add_task pending_schedules (0, 0, [], [])
      in (\<lparr>executed_count = executed, failed_count = failed,
            execution_time = current_time, details = dets\<rparr>, tasks))"

text \<open>
  The framework runs the registered units one after the other, in registration order,
  once the response has been produced. Unit number \<open>n\<close> reads the clock \<open>clk n\<close>.
\<close>

fun run_background_tasks ::
  "(Schedule \<Rightarrow> attempt) \<Rightarrow> (nat \<Rightarrow> unit_clock) \<Rightarrow> nat \<Rightarrow> Schedule list \<Rightarrow> table \<Rightarrow> table" where
  "run_background_tasks send clk n [] db = db"
| "run_background_tasks send clk n (schedule # rest) db =
     run_background_tasks send clk (Suc n) rest
       (execute_single_email_schedule send (clk n) schedule db)"

text \<open>
  The server between requests: the table and the units registered but not yet run.
  \<open>request_execute_pending\<close> is one call of the endpoint, \<open>run_registered\<close> is the
  framework running what is registered.
\<close>

record server =
  rows :: table
  registered :: "Schedule list"

definition request_execute_pending ::
  "(Schedule \<Rightarrow> string option) \<Rightarrow> datetime \<Rightarrow> server
     \<Rightarrow> EmailScheduleExecuteResponse \<times> server" where
  "request_execute_pending add_task current_time sv =
     (let (response, tasks) = execute_pending_email_schedules add_task current_time (rows sv)
      in (response, sv\<lparr>registered := registered sv @ tasks\<rparr>))"

definition run_registered ::
  "(Schedule \<Rightarrow> attempt) \<Rightarrow> (nat \<Rightarrow> unit_clock) \<Rightarrow> server \<Rightarrow> server" where
  "run_registered send clk sv =
     \<lparr>rows = run_background_tasks send clk 0 (registered sv) (rows sv), registered = []\<rparr>"

text \<open>A sequence of cycles, each a request followed by the run of its units.\<close>

record cycle_input =
  c_add_task :: "Schedule \<Rightarrow> string option"
  c_send :: "Schedule \<Rightarrow> attempt"
  c_clock :: "nat \<Rightarrow> unit_clock"
  c_now :: datetime

definition cycle :: "cycle_input \<Rightarrow> server \<Rightarrow> server" where
  "cycle c sv =
     run_registered (c_send c) (c_clock c)
       (snd (request_execute_pending (c_add_task c) (c_now c) sv))"

fun cycles :: "cycle_input list \<Rightarrow> server \<Rightarrow> server" where
  "cycles [] sv = sv"
| "cycles (c # cs) sv = cycles cs (cycle c sv)"

section \<open>Sequences of store transitions\<close>

text \<open>
  A transition of the store is one call of \<^verbatim>\<open>update_status\<close> or of
  \<^verbatim>\<open>handle_failure\<close>, on any schedule, with any arguments. \<open>failures_on sid\<close>
  counts the \<^verbatim>\<open>handle_failure\<close> calls of a sequence made on the schedule \<open>sid\<close>.
\<close>

datatype store_call =
    UpdateStatus int ScheduleStatus "datetime option" "string option" datetime
  | HandleFailure int string datetime datetime

fun apply_call :: "table \<Rightarrow> store_call \<Rightarrow> table" where
  "apply_call db (UpdateStatus sid st executed_at_arg result_arg utcnow) =
     fst (update_status db sid st executed_at_arg result_arg utcnow)"
| "apply_call db (HandleFailure sid msg utcnow1 utcnow2) =
     fst (handle_failure db sid msg utcnow1 utcnow2)"

fun apply_calls :: "table \<Rightarrow> store_call list \<Rightarrow> table" where
  "apply_calls db [] = db"
| "apply_calls db (c # cs) = apply_calls (apply_call db c) cs"

fun failures_on :: "int \<Rightarrow> store_call list \<Rightarrow> nat" where
  "failures_on sid [] = 0"
| "failures_on sid (UpdateStatus i st executed_at_arg result_arg utcnow # cs) =
     failures_on sid cs"
| "failures_on sid (HandleFailure i msg utcnow1 utcnow2 # cs) =
     (if i = sid then Suc (failures_on sid cs) else failures_on sid cs)"

section \<open>Sender address resolution (ncloud_mailer/config.py, app/services/email_service.py)\<close>

text \<open>
  \<^verbatim>\<open>os.environ\<close> is a map from names to values, as the lookups of one unit see it.
  The exceptions of the configuration are \<^verbatim>\<open>ValueError\<close>s; their texts are given by
  a parameter where they reach a schedule (\<open>failure_text\<close> below).
\<close>

type_synonym environ = "string \<rightharpoonup> string"

datatype error = ValueError

record ApiKey =
  key_id :: int
  key_name :: string
  api_key :: string
  service_name :: string
  is_active :: bool









section \<open>The body of an execution unit (app/schemas/email.py, email_service.py, email_router.py)\<close>



record EmailRecipient =
  email :: string
  name :: "string option"










section \<open>Notions used in the proofs\<close>

text \<open>The entry of \<^verbatim>\<open>execution_details\<close> that the dispatch loop writes for a schedule.\<close>

definition detail_of :: "(Schedule \<Rightarrow> string option) \<Rightarrow> Schedule \<Rightarrow> detail" where
  "detail_of add_task s =
     (case add_task s of
        None \<Rightarrow> Started (schedule_id s) (schedule_name s)
      | Some e \<Rightarrow> FailedToStart (schedule_id s) (schedule_name s) e)"

text \<open>
  What one execution unit leaves of the row \<open>r\<close> it finds: the key, the retry settings
  and the kind are kept; either the row is \<open>COMPLETED\<close> with its count unchanged, or
  the count went up by one and the row is \<open>FAILED\<close> (count reached the maximum) or
  \<open>PENDING\<close> with the deferred time.
\<close>

definition after_attempt :: "unit_clock \<Rightarrow> Schedule \<Rightarrow> Schedule \<Rightarrow> bool" where
  "after_attempt c r r' \<longleftrightarrow>
     schedule_id r' = schedule_id r \<and> max_retry r' = max_retry r
     \<and> retry_interval r' = retry_interval r \<and> schedule_type r' = schedule_type r
     \<and> ((status r' = COMPLETED \<and> retry_count r' = retry_count r)
        \<or> (retry_count r' = retry_count r + 1
            \<and> ((max_retry r \<le> retry_count r + 1 \<and> status r' = FAILED)
               \<or> (retry_count r + 1 < max_retry r \<and> status r' = PENDING
                   \<and> scheduled_at r' = (t_retry c - t_retry c mod 60000000)
                                         + retry_interval r * 1000000))))"

text \<open>
  The invariant of the retry counter: the count is within the maximum, and strictly
  below it while the schedule is still waiting for an attempt.
\<close>

definition retry_ok :: "Schedule \<Rightarrow> bool" where
  "retry_ok r \<longleftrightarrow>
     retry_count r \<le> max_retry r \<and> (status r = PENDING \<longrightarrow> retry_count r < max_retry r)"

section \<open>The fallback order as the specification words it\<close>

text \<open>
  The three levels of the specification: the value carried by the payload, the address
  configured for the service of the owning API key, the global default. A level yields
  nothing when its value is missing or empty. The address of a service is the value of
  the variable \<^verbatim>\<open>NCLOUD_SENDER_EMAIL_\<close> followed by the service's name in upper case,
  written out for the three services the configuration knows by name.
\<close>

definition payload_sender :: "string option \<Rightarrow> string option" where
  "payload_sender request_sender =
     (case request_sender of Some a \<Rightarrow> if a = [] then None else Some a | None \<Rightarrow> None)"

definition service_sender_variable :: "(string \<Rightarrow> string) \<Rightarrow> string \<Rightarrow> string" where
  "service_sender_variable up sname =
     ''NCLOUD_SENDER_EMAIL_'' @
       (if sname = ''service_a'' then ''SERVICE_A''
        else if sname = ''service_b'' then ''SERVICE_B''
        else if sname = ''service_c'' then ''SERVICE_C''
        else up sname)"

definition api_key_sender ::
  "(string \<Rightarrow> string) \<Rightarrow> environ \<Rightarrow> ApiKey list option \<Rightarrow> int \<Rightarrow> string option" where
  "api_key_sender up env keys owner =
     (case keys of
        None \<Rightarrow> None
      | Some ks \<Rightarrow>
          (case find (\<lambda>k. key_id k = owner) ks of
             None \<Rightarrow> None
           | Some k \<Rightarrow>
               (case env (service_sender_variable up (service_name k)) of
                  None \<Rightarrow> None
                | Some a \<Rightarrow> if a = [] then None else Some a)))"

definition default_sender :: "environ \<Rightarrow> string option" where
  "default_sender env =
     (case env ''NCLOUD_SENDER_EMAIL'' of
        None \<Rightarrow> None
      | Some a \<Rightarrow> if a = [] then None else Some a)"

definition three_level_fallback ::
  "(string \<Rightarrow> string) \<Rightarrow> environ \<Rightarrow> ApiKey list option \<Rightarrow> string option \<Rightarrow> int
     \<Rightarrow> error + string" where
  "three_level_fallback up env keys request_sender owner =
     (case payload_sender request_sender of
        Some a \<Rightarrow> Inr a
      | None \<Rightarrow>
          (case api_key_sender up env keys owner of
             Some a \<Rightarrow> Inr a
           | None \<Rightarrow>
               (case default_sender env of
                  Some a \<Rightarrow> Inr a
                | None \<Rightarrow> Inl ValueError)))"





section \<open>Example inputs\<close>

definition example_schedule :: Schedule where
  "example_schedule =
     \<lparr>schedule_id = 1, api_key_id = 1, schedule_name = ''welcome'',
      schedule_type = EMAIL, scheduled_at = 40000000, timezone = ''UTC'',
      payload = ''{}'', status = PENDING, executed_at = None,
      max_retry = 3, retry_count = 0, retry_interval = 300,
      result = None, error_message = None, created_at = 0, updated_at = 0\<rparr>"

definition no_retry_schedule :: Schedule where
  "no_retry_schedule = example_schedule\<lparr>max_retry := 0\<rparr>"

definition example_clock :: unit_clock where
  "example_clock = \<lparr>t_processing = 45000000, t_executed = 45000000,
                     t_completed = 45000000, t_failure = 45000000, t_retry = 45000000\<rparr>"

definition short_interval_schedule :: Schedule where
  "short_interval_schedule = example_schedule\<lparr>retry_interval := 30\<rparr>"

definition second_schedule :: Schedule where
  "second_schedule = example_schedule\<lparr>schedule_id := 2, schedule_name := ''digest''\<rparr>"

definition example_server :: server where
  "example_server = \<lparr>rows = [example_schedule, second_schedule], registered = []\<rparr>"

definition add_task_ok :: "Schedule \<Rightarrow> string option" where
  "add_task_ok s = None"

definition add_task_first_fails :: "Schedule \<Rightarrow> string option" where
  "add_task_first_fails s = (if schedule_id s = 1 then Some ''closed'' else None)"

definition send_refused :: "Schedule \<Rightarrow> attempt" where
  "send_refused s = Raised ''refused''"

definition frozen_clock :: "nat \<Rightarrow> unit_clock" where
  "frozen_clock k = example_clock"

definition no_retry_server :: server where
  "no_retry_server = \<lparr>rows = [no_retry_schedule], registered = []\<rparr>"

definition refused_cycle :: cycle_input where
  "refused_cycle = \<lparr>c_add_task = add_task_ok, c_send = send_refused,
                     c_clock = frozen_clock, c_now = 45000000\<rparr>"

definition clock_at :: "datetime \<Rightarrow> unit_clock" where
  "clock_at t = \<lparr>t_processing = t, t_executed = t, t_completed = t,
                  t_failure = t, t_retry = t\<rparr>"

definition refused_cycle_at :: "datetime \<Rightarrow> cycle_input" where
  "refused_cycle_at t = \<lparr>c_add_task = add_task_ok, c_send = send_refused,
                          c_clock = (\<lambda>k. clock_at t), c_now = t\<rparr>"

definition retry_cycles :: "cycle_input list" where
  "retry_cycles = [refused_cycle_at 45000000, refused_cycle_at 360000000,
                   refused_cycle_at 700000000, refused_cycle_at 1000000000]"

definition single_server :: server where
  "single_server = \<lparr>rows = [example_schedule], registered = []\<rparr>"

definition one_retry_server :: server where
  "one_retry_server = \<lparr>rows = [example_schedule\<lparr>max_retry := 1\<rparr>], registered = []\<rparr>"

definition three_failures :: "store_call list" where
  "three_failures = [HandleFailure 1 ''e1'' 45000000 45000000,
                     UpdateStatus 1 PROCESSING None None 360000000,
                     HandleFailure 1 ''e2'' 360000000 360000000,
                     HandleFailure 2 ''other'' 360000000 360000000,
                     HandleFailure 1 ''e3'' 700000000 700000000]"

definition four_failures :: "store_call list" where
  "four_failures = three_failures @ [HandleFailure 1 ''e4'' 1000000000 1000000000]"











section \<open>Store lemmas\<close>

lemma first_by_id_mem:
  "first_by_id db sid = Some s \<Longrightarrow> s \<in> set db \<and> schedule_id s = sid"
  unfolding first_by_id_def by (induction db) (auto split: if_splits)

lemma first_by_id_commit_same:
  "first_by_id db sid = Some s \<Longrightarrow> schedule_id s' = sid
     \<Longrightarrow> first_by_id (commit db s') sid = Some s'"
  unfolding first_by_id_def commit_def by (induction db) (auto split: if_splits)

lemma first_by_id_commit_other:
  "schedule_id s' \<noteq> sid \<Longrightarrow> first_by_id (commit db s') sid = first_by_id db sid"
  unfolding first_by_id_def commit_def by (induction db) auto

lemma commit_ids: "map schedule_id (commit db s) = map schedule_id db"
  unfolding commit_def by (induction db) auto

lemma commit_set: "set (commit db s) \<subseteq> insert s (set db)"
  unfolding commit_def by auto

lemma commit_keeps_other:
  "r \<in> set db \<Longrightarrow> schedule_id r \<noteq> schedule_id s \<Longrightarrow> r \<in> set (commit db s)"
  unfolding commit_def by auto

lemma commit_commit:
  "schedule_id a = schedule_id b \<Longrightarrow> commit (commit db a) b = commit db b"
  unfolding commit_def by (induction db) auto

lemma distinct_ids_inj:
  "distinct (map schedule_id db) \<Longrightarrow> x \<in> set db \<Longrightarrow> y \<in> set db
     \<Longrightarrow> schedule_id x = schedule_id y \<Longrightarrow> x = y"
  by (auto simp: distinct_map dest: inj_onD)

lemma first_by_id_distinct:
  "distinct (map schedule_id db) \<Longrightarrow> r \<in> set db \<Longrightarrow> first_by_id db (schedule_id r) = Some r"
  unfolding first_by_id_def by (induction db) auto

text \<open>What \<^verbatim>\<open>create\<close> inserts: a pending row with no attempt, no result, no error.\<close>

lemma create_fresh:
  "status (snd (create db new_id utcnow akid label stype sched_at pl tz maxr interval)) = PENDING
   \<and> retry_count (snd (create db new_id utcnow akid label stype sched_at pl tz maxr interval)) = 0
   \<and> result (snd (create db new_id utcnow akid label stype sched_at pl tz maxr interval)) = None
   \<and> error_message (snd (create db new_id utcnow akid label stype sched_at pl tz maxr interval))
       = None
   \<and> max_retry (snd (create db new_id utcnow akid label stype sched_at pl tz maxr interval))
       = maxr"
  by (simp add: create_def Let_def)

lemma create_retry_ok:
  "1 \<le> maxr \<Longrightarrow>
   retry_ok (snd (create db new_id utcnow akid label stype sched_at pl tz maxr interval))"
  by (simp add: create_def retry_ok_def Let_def)

section \<open>Execution unit and background run: lemmas\<close>

lemma unit_absent:
  "first_by_id db (schedule_id t) = None \<Longrightarrow> execute_single_email_schedule send c t db = db"
  by (simp add: execute_single_email_schedule_def update_status_def handle_failure_def
        split: attempt.splits)

lemma unit_present:
  assumes "first_by_id db (schedule_id t) = Some r"
  shows "\<exists>r'. execute_single_email_schedule send c t db = commit db r' \<and> after_attempt c r r'"
proof -
  let ?sid = "schedule_id t"
  let ?r1 = "r\<lparr>status := PROCESSING, updated_at := t_processing c\<rparr>"
  from assms have sid: "schedule_id r = ?sid" by (simp add: first_by_id_mem)
  have u: "update_status db ?sid PROCESSING None None (t_processing c)
             = (commit db ?r1, Some ?r1)"
    using assms by (simp add: update_status_def Let_def)
  have f1: "first_by_id (commit db ?r1) ?sid = Some ?r1"
    using assms sid by (simp add: first_by_id_commit_same)
  show ?thesis
  proof (cases "send t")
    case (Sent res)
    let ?r2 = "(if res \<noteq> [] then ?r1\<lparr>status := COMPLETED, executed_at := Some (t_executed c),
                                      result := Some res\<rparr>
               else ?r1\<lparr>status := COMPLETED, executed_at := Some (t_executed c)\<rparr>)
                \<lparr>updated_at := t_completed c\<rparr>"
    have "execute_single_email_schedule send c t db = commit (commit db ?r1) ?r2"
      using Sent u f1 by (simp add: execute_single_email_schedule_def update_status_def Let_def)
    moreover have "schedule_id ?r1 = schedule_id ?r2" by simp
    ultimately have "execute_single_email_schedule send c t db = commit db ?r2"
      by (simp only: commit_commit)
    moreover have "after_attempt c r ?r2" by (simp add: after_attempt_def)
    ultimately show ?thesis by blast
  next
    case (Raised e)
    let ?r3 = "?r1\<lparr>retry_count := retry_count r + 1, error_message := Some e,
                    updated_at := t_failure c\<rparr>"
    let ?r4 = "if max_retry r \<le> retry_count r + 1 then ?r3\<lparr>status := FAILED\<rparr>
               else ?r3\<lparr>status := PENDING,
                       scheduled_at := replace_second_microsecond_zero (t_retry c)
                                       + timedelta_seconds (retry_interval r)\<rparr>"
    have "execute_single_email_schedule send c t db = commit (commit db ?r1) ?r4"
      using Raised u f1 by (simp add: execute_single_email_schedule_def handle_failure_def Let_def)
    moreover have "schedule_id ?r1 = schedule_id ?r4" by simp
    ultimately have "execute_single_email_schedule send c t db = commit db ?r4"
      by (simp only: commit_commit)
    moreover have "after_attempt c r ?r4"
      by (simp add: after_attempt_def replace_second_microsecond_zero_def timedelta_seconds_def)
    ultimately show ?thesis by blast
  qed
qed

lemma unit_other_row:
  assumes "schedule_id t \<noteq> sid"
  shows "first_by_id (execute_single_email_schedule send c t db) sid = first_by_id db sid"
proof (cases "first_by_id db (schedule_id t)")
  case None
  then show ?thesis by (simp add: unit_absent)
next
  case (Some r)
  from unit_present [OF Some] obtain r' where
    e: "execute_single_email_schedule send c t db = commit db r'" and a: "after_attempt c r r'"
    by blast
  from Some have "schedule_id r = schedule_id t" by (simp add: first_by_id_mem)
  with a assms have "schedule_id r' \<noteq> sid" by (simp add: after_attempt_def)
  with e show ?thesis by (simp add: first_by_id_commit_other)
qed

lemma unit_keeps_other:
  assumes "s \<in> set db" and "schedule_id t \<noteq> schedule_id s"
  shows "s \<in> set (execute_single_email_schedule send c t db)"
proof (cases "first_by_id db (schedule_id t)")
  case None
  with assms show ?thesis by (simp add: unit_absent)
next
  case (Some r)
  from unit_present [OF Some] obtain r' where
    e: "execute_single_email_schedule send c t db = commit db r'" and a: "after_attempt c r r'"
    by blast
  from Some have "schedule_id r = schedule_id t" by (simp add: first_by_id_mem)
  with a assms have "schedule_id s \<noteq> schedule_id r'" by (simp add: after_attempt_def)
  with e assms(1) show ?thesis by (simp add: commit_keeps_other)
qed

lemma unit_ids:
  "map schedule_id (execute_single_email_schedule send c t db) = map schedule_id db"
proof (cases "first_by_id db (schedule_id t)")
  case None
  then show ?thesis by (simp add: unit_absent)
next
  case (Some r)
  from unit_present [OF Some] obtain r' where
    "execute_single_email_schedule send c t db = commit db r'" by blast
  then show ?thesis by (simp add: commit_ids)
qed

lemma run_keeps_other:
  "s \<in> set db \<Longrightarrow> \<forall>t\<in>set tasks. schedule_id t \<noteq> schedule_id s
     \<Longrightarrow> s \<in> set (run_background_tasks send clk n tasks db)"
  by (induction tasks arbitrary: db n) (simp_all add: unit_keeps_other)

lemma run_other_row:
  "\<forall>t\<in>set tasks. schedule_id t \<noteq> sid
     \<Longrightarrow> first_by_id (run_background_tasks send clk n tasks db) sid = first_by_id db sid"
  by (induction tasks arbitrary: db n) (simp_all add: unit_other_row)

lemma run_ids:
  "map schedule_id (run_background_tasks send clk n tasks db) = map schedule_id db"
  by (induction tasks arbitrary: db n) (simp_all add: unit_ids)

lemma run_tasks_rel:
  assumes "distinct (map schedule_id db)" and "distinct tasks" and "set tasks \<subseteq> set db"
  shows "list_all2 (\<lambda>r r'. if r \<in> set tasks then (\<exists>k. after_attempt (clk k) r r') else r' = r)
           db (run_background_tasks send clk n tasks db)"
  using assms
proof (induction tasks arbitrary: db n)
  case Nil
  then show ?case by (simp add: list_all2_same)
next
  case (Cons t rest)
  let ?db1 = "execute_single_email_schedule send (clk n) t db"
  let ?final = "run_background_tasks send clk (Suc n) rest ?db1"
  from Cons.prems have t_db: "t \<in> set db" and t_rest: "t \<notin> set rest"
    and d_rest: "distinct rest" and rest_db: "set rest \<subseteq> set db" by auto
  from Cons.prems(1) t_db have "first_by_id db (schedule_id t) = Some t"
    by (rule first_by_id_distinct)
  from unit_present [OF this] obtain t' where
    db1: "?db1 = commit db t'" and att: "after_attempt (clk n) t t'" by blast
  from att have id_t': "schedule_id t' = schedule_id t" by (simp add: after_attempt_def)
  have other: "schedule_id x \<noteq> schedule_id t" if "x \<in> set db" "x \<noteq> t" for x
    using distinct_ids_inj [OF Cons.prems(1) that(1) t_db] that(2) by blast
  have d1: "distinct (map schedule_id ?db1)"
    using Cons.prems(1) by (simp add: unit_ids)
  have sub1: "set rest \<subseteq> set ?db1"
  proof
    fix x assume x: "x \<in> set rest"
    with rest_db t_rest have "x \<in> set db" "x \<noteq> t" by auto
    with other id_t' have "schedule_id x \<noteq> schedule_id t'" by simp
    with \<open>x \<in> set db\<close> show "x \<in> set ?db1" by (simp add: db1 commit_keeps_other)
  qed
  have t'_rest: "t' \<notin> set rest"
  proof
    assume "t' \<in> set rest"
    with rest_db have "t' \<in> set db" by auto
    from distinct_ids_inj [OF Cons.prems(1) this t_db id_t'] have "t' = t" .
    with \<open>t' \<in> set rest\<close> t_rest show False by simp
  qed
  from Cons.IH [OF d1 d_rest sub1, of "Suc n"] have ih:
    "list_all2 (\<lambda>r r'. if r \<in> set rest then (\<exists>k. after_attempt (clk k) r r') else r' = r)
       ?db1 ?final" .
  have len1: "length ?db1 = length db" by (simp add: db1 commit_def)
  from ih have len2: "length ?final = length ?db1" by (simp add: list_all2_lengthD)
  have "list_all2 (\<lambda>r r'. if r \<in> set (t # rest) then (\<exists>k. after_attempt (clk k) r r')
                          else r' = r) db ?final"
  proof (rule list_all2_all_nthI)
    show "length db = length ?final" using len1 len2 by simp
  next
    fix i assume i: "i < length db"
    let ?r = "db ! i"
    from i have r_db: "?r \<in> set db" by simp
    from i len1 have i1: "i < length ?db1" by simp
    from ih i1 have step: "if ?db1 ! i \<in> set rest
        then (\<exists>k. after_attempt (clk k) (?db1 ! i) (?final ! i)) else ?final ! i = ?db1 ! i"
      by (simp add: list_all2_conv_all_nth)
    have r1: "?db1 ! i = (if schedule_id ?r = schedule_id t' then t' else ?r)"
      using i by (simp add: db1 commit_def)
    show "if ?r \<in> set (t # rest) then (\<exists>k. after_attempt (clk k) ?r (?final ! i))
          else ?final ! i = ?r"
    proof (cases "?r = t")
      case True
      with r1 id_t' have "?db1 ! i = t'" by simp
      with step t'_rest have "?final ! i = t'" by simp
      with att True show ?thesis by auto
    next
      case False
      with other [OF r_db] id_t' r1 have "?db1 ! i = ?r" by simp
      with step False show ?thesis by auto
    qed
  qed
  then show ?case by simp
qed

lemma run_tasks_rows:
  assumes "distinct (map schedule_id db)" and "distinct tasks" and "set tasks \<subseteq> set db"
    and "r' \<in> set (run_background_tasks send clk n tasks db)"
  shows "\<exists>r\<in>set db. if r \<in> set tasks then (\<exists>k. after_attempt (clk k) r r') else r' = r"
proof -
  let ?final = "run_background_tasks send clk n tasks db"
  from run_tasks_rel [OF assms(1-3), of clk send n] have rel:
    "list_all2 (\<lambda>r r'. if r \<in> set tasks then (\<exists>k. after_attempt (clk k) r r') else r' = r)
       db ?final" .
  from assms(4) obtain i where i: "i < length ?final" and r': "?final ! i = r'"
    by (auto simp: in_set_conv_nth)
  from rel have len: "length db = length ?final" by (rule list_all2_lengthD)
  with i have "db ! i \<in> set db" by simp
  moreover from rel i len
  have "if db ! i \<in> set tasks then (\<exists>k. after_attempt (clk k) (db ! i) (?final ! i))
        else ?final ! i = db ! i"
    by (simp add: list_all2_conv_all_nth)
  ultimately show ?thesis using r' by blast
qed

lemma retry_ok_after_attempt:
  "retry_ok r \<Longrightarrow> status r = PENDING \<Longrightarrow> after_attempt c r r' \<Longrightarrow> retry_ok r'"
  by (auto simp: retry_ok_def after_attempt_def)

lemma not_due_after_attempt:
  assumes "after_attempt c r r'" and "60 \<le> retry_interval r" and "now \<le> t_retry c"
  shows "\<not> (scheduled_at r' \<le> now \<and> status r' = PENDING)"
proof
  assume a: "scheduled_at r' \<le> now \<and> status r' = PENDING"
  with assms(1) have
    "scheduled_at r' = (t_retry c - t_retry c mod 60000000) + retry_interval r * 1000000"
    by (auto simp: after_attempt_def)
  moreover have "t_retry c mod 60000000 < 60000000" by simp
  moreover have "60000000 \<le> retry_interval r * 1000000" using assms(2) by simp
  ultimately have "t_retry c < scheduled_at r'" by linarith
  with a assms(3) show False by simp
qed

section \<open>Handler and cycle: lemmas\<close>

lemma dispatch_loop_eq:
  "dispatch_loop add_task xs (e, f, d, ts) =
     (e + int (length (filter (\<lambda>s. add_task s = None) xs)),
      f + int (length (filter (\<lambda>s. add_task s \<noteq> None) xs)),
      d @ map (detail_of add_task) xs,
      ts @ filter (\<lambda>s. add_task s = None) xs)"
  by (induction xs arbitrary: e f d ts) (auto simp: detail_of_def split: option.splits)

lemma handler_eq:
  "execute_pending_email_schedules add_task now db =
     (let due = get_pending_schedules_by_time_and_type db now EMAIL in
      (\<lparr>executed_count = int (length (filter (\<lambda>s. add_task s = None) due)),
        failed_count = int (length (filter (\<lambda>s. add_task s \<noteq> None) due)),
        execution_time = now,
        details = map (detail_of add_task) due\<rparr>,
       filter (\<lambda>s. add_task s = None) due))"
  by (simp add: execute_pending_email_schedules_def dispatch_loop_eq Let_def)

lemma due_distinct:
  "distinct (map schedule_id db)
     \<Longrightarrow> distinct (filter P (get_pending_schedules_by_time_and_type db now kind))"
  by (simp add: get_pending_schedules_by_time_and_type_def distinct_map)

lemma request_rows:
  "rows (snd (request_execute_pending add_task now sv)) = rows sv"
  by (simp add: request_execute_pending_def handler_eq Let_def)

lemma request_registered:
  "registered sv = [] \<Longrightarrow>
   registered (snd (request_execute_pending add_task now sv))
     = filter (\<lambda>s. add_task s = None)
         (get_pending_schedules_by_time_and_type (rows sv) now EMAIL)"
  by (simp add: request_execute_pending_def handler_eq Let_def)

lemma cycle_rows:
  "registered sv = [] \<Longrightarrow>
   rows (cycle c sv)
     = run_background_tasks (c_send c) (c_clock c) 0
         (filter (\<lambda>s. c_add_task c s = None)
            (get_pending_schedules_by_time_and_type (rows sv) (c_now c) EMAIL))
         (rows sv)"
  by (simp add: cycle_def run_registered_def request_rows request_registered)

lemma cycle_registered: "registered (cycle c sv) = []"
  by (simp add: cycle_def run_registered_def)

lemma run_tasks_row:
  assumes "distinct (map schedule_id db)" and "distinct tasks" and "set tasks \<subseteq> set db"
    and "first_by_id db sid = Some r"
  shows "\<exists>r'. first_by_id (run_background_tasks send clk n tasks db) sid = Some r'
           \<and> (if r \<in> set tasks then (\<exists>k. after_attempt (clk k) r r') else r' = r)"
proof -
  let ?final = "run_background_tasks send clk n tasks db"
  from assms(4) have r_db: "r \<in> set db" and r_id: "schedule_id r = sid"
    by (simp_all add: first_by_id_mem)
  from run_tasks_rel [OF assms(1-3), of clk send n] have rel:
    "list_all2 (\<lambda>r r'. if r \<in> set tasks then (\<exists>k. after_attempt (clk k) r r') else r' = r)
       db ?final" .
  from r_db obtain i where i: "i < length db" and ri: "db ! i = r"
    by (auto simp: in_set_conv_nth)
  from rel have len: "length db = length ?final" by (rule list_all2_lengthD)
  from rel i have step:
    "if db ! i \<in> set tasks then (\<exists>k. after_attempt (clk k) (db ! i) (?final ! i))
     else ?final ! i = db ! i"
    by (simp add: list_all2_conv_all_nth)
  let ?r' = "?final ! i"
  from step have step': "if r \<in> set tasks then (\<exists>k. after_attempt (clk k) r ?r') else ?r' = r"
    unfolding ri .
  then have "schedule_id ?r' = schedule_id r"
    by (auto simp: after_attempt_def split: if_splits)
  moreover from i len have "?r' \<in> set ?final" by simp
  moreover have "distinct (map schedule_id ?final)" using assms(1) by (simp add: run_ids)
  ultimately have "first_by_id ?final sid = Some ?r'"
    using first_by_id_distinct [of ?final ?r'] r_id by simp
  with step' show ?thesis by blast
qed

lemma cycle_row:
  assumes "registered sv = []" and "distinct (map schedule_id (rows sv))"
    and "first_by_id (rows sv) sid = Some r" and "retry_ok r"
  shows "\<exists>r'. first_by_id (rows (cycle c sv)) sid = Some r'
           \<and> max_retry r' = max_retry r \<and> retry_ok r'"
proof -
  let ?due = "get_pending_schedules_by_time_and_type (rows sv) (c_now c) EMAIL"
  let ?tasks = "filter (\<lambda>s. c_add_task c s = None) ?due"
  have rows: "rows (cycle c sv)
                = run_background_tasks (c_send c) (c_clock c) 0 ?tasks (rows sv)"
    using assms(1) by (rule cycle_rows)
  have d: "distinct ?tasks" using assms(2) by (rule due_distinct)
  have sub: "set ?tasks \<subseteq> set (rows sv)"
    by (auto simp: get_pending_schedules_by_time_and_type_def)
  from run_tasks_row [OF assms(2) d sub assms(3), of "c_send c" "c_clock c" 0]
  obtain r' where
    f: "first_by_id (rows (cycle c sv)) sid = Some r'"
    and step: "if r \<in> set ?tasks then (\<exists>k. after_attempt (c_clock c k) r r') else r' = r"
    by (auto simp: rows)
  show ?thesis
  proof (cases "r \<in> set ?tasks")
    case True
    with step obtain k where a: "after_attempt (c_clock c k) r r'" by auto
    from True have "status r = PENDING"
      by (simp add: get_pending_schedules_by_time_and_type_def)
    with a assms(4) have "retry_ok r'" by (blast intro: retry_ok_after_attempt)
    moreover from a have "max_retry r' = max_retry r" by (simp add: after_attempt_def)
    ultimately show ?thesis using f by blast
  next
    case False
    with step f assms(4) show ?thesis by auto
  qed
qed

lemma cycle_ids: "registered sv = [] \<Longrightarrow>
  map schedule_id (rows (cycle c sv)) = map schedule_id (rows sv)"
  by (simp add: cycle_rows run_ids)

lemma cycles_row:
  "registered sv = [] \<Longrightarrow> distinct (map schedule_id (rows sv))
     \<Longrightarrow> first_by_id (rows sv) sid = Some r \<Longrightarrow> retry_ok r
     \<Longrightarrow> \<exists>r'. first_by_id (rows (cycles cs sv)) sid = Some r'
            \<and> max_retry r' = max_retry r \<and> retry_ok r'"
proof (induction cs arbitrary: sv r)
  case Nil
  then show ?case by simp
next
  case (Cons c cs)
  from cycle_row [OF Cons.prems, of c] obtain r1 where
    r1: "first_by_id (rows (cycle c sv)) sid = Some r1" "max_retry r1 = max_retry r"
        "retry_ok r1" by blast
  have d: "distinct (map schedule_id (rows (cycle c sv)))"
    using Cons.prems(1,2) by (simp add: cycle_ids)
  from Cons.IH [OF cycle_registered d r1(1) r1(3)] r1(2) show ?case by simp
qed

section \<open>Store transitions: lemmas\<close>

lemma update_status_other:
  "i \<noteq> sid \<Longrightarrow>
   first_by_id (fst (update_status db i st ea res utcnow)) sid = first_by_id db sid"
proof (cases "first_by_id db i")
  case None
  then show ?thesis by (simp add: update_status_def)
next
  case (Some r)
  assume "i \<noteq> sid"
  moreover from Some have "schedule_id r = i" by (simp add: first_by_id_mem)
  ultimately show ?thesis using Some
    by (cases ea) (simp_all add: update_status_def Let_def first_by_id_commit_other)
qed

lemma handle_failure_other:
  "i \<noteq> sid \<Longrightarrow>
   first_by_id (fst (handle_failure db i msg utcnow1 utcnow2)) sid = first_by_id db sid"
proof (cases "first_by_id db i")
  case None
  then show ?thesis by (simp add: handle_failure_def)
next
  case (Some r)
  assume "i \<noteq> sid"
  moreover from Some have "schedule_id r = i" by (simp add: first_by_id_mem)
  ultimately show ?thesis using Some
    by (simp add: handle_failure_def Let_def first_by_id_commit_other)
qed

lemma update_status_same:
  assumes "first_by_id db sid = Some s"
  shows "\<exists>s'. first_by_id (fst (update_status db sid st ea res utcnow)) sid = Some s'
           \<and> max_retry s' = max_retry s \<and> retry_count s' = retry_count s"
proof -
  from assms have "schedule_id s = sid" by (simp add: first_by_id_mem)
  with assms show ?thesis
    by (cases ea) (simp_all add: update_status_def Let_def first_by_id_commit_same)
qed

lemma handle_failure_same:
  assumes "first_by_id db sid = Some s"
  shows "\<exists>s'. first_by_id (fst (handle_failure db sid msg utcnow1 utcnow2)) sid = Some s'
           \<and> max_retry s' = max_retry s \<and> retry_count s' = retry_count s + 1"
proof -
  from assms have "schedule_id s = sid" by (simp add: first_by_id_mem)
  with assms show ?thesis
    by (simp add: handle_failure_def Let_def first_by_id_commit_same)
qed

lemma apply_call_row:
  assumes "first_by_id db sid = Some s"
  shows "\<exists>s'. first_by_id (apply_call db c) sid = Some s'
           \<and> max_retry s' = max_retry s
           \<and> retry_count s' = retry_count s + int (failures_on sid [c])"
proof (cases c)
  case (UpdateStatus i st ea res utcnow)
  show ?thesis
  proof (cases "i = sid")
    case True
    with UpdateStatus update_status_same [OF assms, of st ea res utcnow] show ?thesis by simp
  next
    case False
    with UpdateStatus assms show ?thesis by (simp add: update_status_other)
  qed
next
  case (HandleFailure i msg utcnow1 utcnow2)
  show ?thesis
  proof (cases "i = sid")
    case True
    with HandleFailure handle_failure_same [OF assms, of msg utcnow1 utcnow2]
    show ?thesis by simp
  next
    case False
    with HandleFailure assms show ?thesis by (simp add: handle_failure_other)
  qed
qed

lemma failures_on_Cons:
  "failures_on sid (c # cs) = failures_on sid [c] + failures_on sid cs"
  by (cases c) simp_all

lemma apply_calls_row:
  "first_by_id db sid = Some s \<Longrightarrow>
   \<exists>s'. first_by_id (apply_calls db calls) sid = Some s'
      \<and> max_retry s' = max_retry s
      \<and> retry_count s' = retry_count s + int (failures_on sid calls)"
proof (induction calls arbitrary: db s)
  case Nil
  then show ?case by simp
next
  case (Cons c cs)
  from apply_call_row [OF Cons.prems, of c] obtain s1 where
    s1: "first_by_id (apply_call db c) sid = Some s1" "max_retry s1 = max_retry s"
        "retry_count s1 = retry_count s + int (failures_on sid [c])" by blast
  from Cons.IH [OF s1(1)] obtain s' where
    "first_by_id (apply_calls (apply_call db c) cs) sid = Some s'"
    "max_retry s' = max_retry s1"
    "retry_count s' = retry_count s1 + int (failures_on sid cs)" by blast
  with s1 show ?case by (simp add: failures_on_Cons [of sid c cs])
qed

section \<open>Sender address: lemmas\<close>



lemma fallback_nonempty:
  "three_level_fallback up env keys request_sender owner = Inr a \<Longrightarrow> a \<noteq> []"
  by (auto simp: three_level_fallback_def payload_sender_def api_key_sender_def
        default_sender_def split: option.splits if_splits)


section \<open>Store operations\<close>

text \<open>
  C1. For a schedule present in the store, one call of \<^verbatim>\<open>handle_failure\<close> adds
  exactly 1 to \<open>retry_count\<close> and stores the message in \<open>error_message\<close>; when the
  new count reaches \<open>max_retry\<close> the status becomes \<open>FAILED\<close>, otherwise it becomes
  \<open>PENDING\<close> and \<open>scheduled_at\<close> becomes the clock reading with second and
  microsecond zeroed plus \<open>retry_interval\<close> seconds.
\<close>

theorem C1_handle_failure:
  assumes "first_by_id db sid = Some s"
  shows "\<exists>s'. handle_failure db sid msg utcnow1 utcnow2 = (commit db s', Some s')
           \<and> first_by_id (fst (handle_failure db sid msg utcnow1 utcnow2)) sid = Some s'
           \<and> retry_count s' = retry_count s + 1
           \<and> error_message s' = Some msg
           \<and> (if max_retry s \<le> retry_count s + 1
               then status s' = FAILED
               else status s' = PENDING
                    \<and> scheduled_at s' = (utcnow2 - utcnow2 mod 60000000)
                                          + retry_interval s * 1000000)"
proof -
  from assms have sid: "schedule_id s = sid" by (simp add: first_by_id_mem)
  show ?thesis
    using assms sid
    by (simp add: handle_failure_def Let_def first_by_id_commit_same
          replace_second_microsecond_zero_def timedelta_seconds_def)
qed

theorem C1_handle_failure_witness:
  "first_by_id [example_schedule] 1 = Some example_schedule
   \<and> (\<exists>s'. handle_failure [example_schedule] 1 ''timeout'' 125000007 125000009
               = (commit [example_schedule] s', Some s')
           \<and> retry_count s' = 1 \<and> error_message s' = Some ''timeout''
           \<and> status s' = PENDING \<and> scheduled_at s' = 420000000)
   \<and> first_by_id [no_retry_schedule] 1 = Some no_retry_schedule
   \<and> (\<exists>s'. handle_failure [no_retry_schedule] 1 ''timeout'' 125000007 125000009
               = (commit [no_retry_schedule] s', Some s')
           \<and> retry_count s' = 1 \<and> error_message s' = Some ''timeout''
           \<and> status s' = FAILED)"
proof -
  have h: "first_by_id [example_schedule] 1 = Some example_schedule"
    by (simp add: first_by_id_def example_schedule_def)
  have h': "first_by_id [no_retry_schedule] 1 = Some no_retry_schedule"
    by (simp add: first_by_id_def no_retry_schedule_def example_schedule_def)
  have a: "\<exists>s'. handle_failure [example_schedule] 1 ''timeout'' 125000007 125000009
               = (commit [example_schedule] s', Some s')
           \<and> retry_count s' = 1 \<and> error_message s' = Some ''timeout''
           \<and> status s' = PENDING \<and> scheduled_at s' = 420000000"
    using C1_handle_failure [OF h, of "''timeout''" 125000007 125000009]
    by (auto simp: example_schedule_def)
  have b: "\<exists>s'. handle_failure [no_retry_schedule] 1 ''timeout'' 125000007 125000009
               = (commit [no_retry_schedule] s', Some s')
           \<and> retry_count s' = 1 \<and> error_message s' = Some ''timeout''
           \<and> status s' = FAILED"
    using C1_handle_failure [OF h', of "''timeout''" 125000007 125000009]
    by (auto simp: no_retry_schedule_def example_schedule_def)
  from h h' a b show ?thesis by blast
qed

text \<open>
  The scenario of the specification: with \<open>max_retry = 3\<close>, two failures leave the
  schedule \<open>PENDING\<close> and deferred, the third makes it \<open>FAILED\<close> with count 3.
\<close>

lemma three_failures_scenario:
  "map (\<lambda>r. (status r, retry_count r, scheduled_at r))
     (fst (handle_failure
        (fst (handle_failure [example_schedule] 1 ''e1'' 45000000 45000000))
        1 ''e2'' 360000000 360000000))
     = [(PENDING, 2, 660000000)]
   \<and> map (\<lambda>r. (status r, retry_count r))
     (fst (handle_failure
        (fst (handle_failure
           (fst (handle_failure [example_schedule] 1 ''e1'' 45000000 45000000))
           1 ''e2'' 360000000 360000000))
        1 ''e3'' 660000000 660000000))
     = [(FAILED, 3)]"
  by (simp add: handle_failure_def first_by_id_def commit_def example_schedule_def Let_def
        replace_second_microsecond_zero_def timedelta_seconds_def)

text \<open>
  C3. \<^verbatim>\<open>get_pending_schedules_by_time_and_type\<close> returns exactly the rows that are
  \<open>PENDING\<close>, scheduled at or before \<open>now\<close> and of the given kind; a pending
  \<open>EMAIL\<close> row scheduled one second before \<open>now\<close> is returned for \<open>EMAIL\<close> and
  not for \<open>SMS\<close>.
\<close>

theorem C3_find_due_pending:
  "set (get_pending_schedules_by_time_and_type db now kind)
     = {r \<in> set db. status r = PENDING \<and> scheduled_at r \<le> now \<and> schedule_type r = kind}
   \<and> (r \<in> set db \<and> status r = PENDING \<and> schedule_type r = EMAIL
        \<and> scheduled_at r = now - 1000000
      \<longrightarrow> r \<in> set (get_pending_schedules_by_time_and_type db now EMAIL)
          \<and> r \<notin> set (get_pending_schedules_by_time_and_type db now SMS))"
  by (auto simp: get_pending_schedules_by_time_and_type_def)

theorem C3_find_due_pending_witness:
  "example_schedule \<in> set [example_schedule] \<and> status example_schedule = PENDING
   \<and> schedule_type example_schedule = EMAIL
   \<and> scheduled_at example_schedule = 41000000 - 1000000
   \<and> example_schedule \<in> set (get_pending_schedules_by_time_and_type [example_schedule] 41000000 EMAIL)
   \<and> example_schedule \<notin> set (get_pending_schedules_by_time_and_type [example_schedule] 41000000 SMS)"
  using C3_find_due_pending [of "[example_schedule]" 41000000 EMAIL example_schedule]
  by (simp add: example_schedule_def)

text \<open>
  C6 as stated: \<^verbatim>\<open>update_status\<close> fails with a not-found error for an absent id.
  The source guards the update with \<^verbatim>\<open>if schedule:\<close> and returns the result of
  the query, so for an absent id the call returns \<^verbatim>\<open>None\<close> normally.
\<close>

theorem C6_counterexample:
  "first_by_id [example_schedule] 2 = None
   \<and> update_status [example_schedule] 2 PROCESSING None None 77
       = ([example_schedule], None)"
  by (simp add: update_status_def first_by_id_def example_schedule_def)

text \<open>
  C6, amended. For every absent id \<^verbatim>\<open>update_status\<close> raises nothing: it returns
  \<^verbatim>\<open>None\<close> and leaves the table as it was.
\<close>

theorem C6_update_status_absent:
  assumes "first_by_id db sid = None"
  shows "update_status db sid st ea res utcnow = (db, None)"
  using assms by (simp add: update_status_def)

theorem C6_update_status_absent_witness:
  "first_by_id [example_schedule] 2 = None
   \<and> update_status [example_schedule] 2 COMPLETED (Some 5) (Some ''ok'') 77
       = ([example_schedule], None)"
proof -
  have h: "first_by_id [example_schedule] 2 = None"
    by (simp add: first_by_id_def example_schedule_def)
  show ?thesis
    using h C6_update_status_absent [OF h, of COMPLETED "Some 5" "Some ''ok''" 77]
    by simp
qed

text \<open>
  C7 as stated: a re-arming \<^verbatim>\<open>handle_failure\<close> never moves \<open>scheduled_at\<close> back,
  for all values of \<open>retry_interval\<close>. The base of the new time is the clock reading
  cut to the minute, so an interval shorter than the cut-off seconds moves a due
  schedule back: due since second 40, failing at second 45 with an interval of 30
  seconds, it is re-armed for second 30.
\<close>

theorem C7_counterexample:
  "first_by_id [short_interval_schedule] 1 = Some short_interval_schedule
   \<and> scheduled_at short_interval_schedule = 40000000
   \<and> scheduled_at short_interval_schedule \<le> 45000000
   \<and> map_option status (snd (handle_failure [short_interval_schedule] 1 ''timeout'' 45000000 45000000))
       = Some PENDING
   \<and> map_option scheduled_at (snd (handle_failure [short_interval_schedule] 1 ''timeout'' 45000000 45000000))
       = Some 30000000
   \<and> (30000000::int) < 40000000"
  by (simp add: handle_failure_def first_by_id_def short_interval_schedule_def
        example_schedule_def Let_def replace_second_microsecond_zero_def
        timedelta_seconds_def)

text \<open>
  C7, amended. With \<open>retry_interval\<close> of at least 60 seconds (the least value the
  creation request accepts), a \<^verbatim>\<open>handle_failure\<close> call on a due schedule that
  re-arms it as \<open>PENDING\<close> sets a \<open>scheduled_at\<close> not before the previous one, and
  after the clock reading.
\<close>

theorem C7_scheduled_at_monotone:
  assumes "first_by_id db sid = Some s"
    and "scheduled_at s \<le> utcnow2"
    and "60 \<le> retry_interval s"
    and "handle_failure db sid msg utcnow1 utcnow2 = (db', Some s')"
    and "status s' = PENDING"
  shows "scheduled_at s \<le> scheduled_at s' \<and> utcnow2 < scheduled_at s'"
proof -
  have m: "utcnow2 mod 60000000 < 60000000" by simp
  have i: "60000000 \<le> retry_interval s * 1000000" using assms(3) by simp
  from assms(1,4,5) have
    "scheduled_at s' = (utcnow2 - utcnow2 mod 60000000) + retry_interval s * 1000000"
    by (auto simp: handle_failure_def Let_def replace_second_microsecond_zero_def
          timedelta_seconds_def split: if_splits)
  with m i assms(2) show ?thesis by linarith
qed

theorem C7_scheduled_at_monotone_witness:
  "first_by_id [example_schedule] 1 = Some example_schedule
   \<and> scheduled_at example_schedule \<le> 45000000
   \<and> 60 \<le> retry_interval example_schedule
   \<and> (\<exists>s'. handle_failure [example_schedule] 1 ''timeout'' 45000000 45000000
             = (commit [example_schedule] s', Some s')
          \<and> status s' = PENDING
          \<and> scheduled_at example_schedule \<le> scheduled_at s')"
proof -
  let ?s' = "example_schedule\<lparr>retry_count := 1, error_message := Some ''timeout'',
               updated_at := 45000000, status := PENDING, scheduled_at := 300000000\<rparr>"
  have h1: "first_by_id [example_schedule] 1 = Some example_schedule"
    by (simp add: first_by_id_def example_schedule_def)
  have h2: "scheduled_at example_schedule \<le> 45000000"
    by (simp add: example_schedule_def)
  have h3: "60 \<le> retry_interval example_schedule"
    by (simp add: example_schedule_def)
  have h4: "handle_failure [example_schedule] 1 ''timeout'' 45000000 45000000
              = (commit [example_schedule] ?s', Some ?s')"
    by (simp add: handle_failure_def first_by_id_def example_schedule_def Let_def
          replace_second_microsecond_zero_def timedelta_seconds_def)
  have h5: "status ?s' = PENDING" by simp
  from C7_scheduled_at_monotone [OF h1 h2 h3 h4 h5]
  have "scheduled_at example_schedule \<le> scheduled_at ?s'" by simp
  with h1 h2 h3 h4 h5 show ?thesis by blast
qed

text \<open>
  C10. \<^verbatim>\<open>update_status\<close> on a present schedule sets \<open>status\<close> and \<open>updated_at\<close>,
  sets \<open>executed_at\<close> only when the argument is given and \<open>result\<close> only when the
  argument is given and not empty, and leaves every other column as it was.
\<close>

theorem C10_update_status_frame:
  assumes "first_by_id db sid = Some s"
  shows "\<exists>s'. update_status db sid st ea res utcnow = (commit db s', Some s')
           \<and> first_by_id (fst (update_status db sid st ea res utcnow)) sid = Some s'
           \<and> status s' = st \<and> updated_at s' = utcnow
           \<and> executed_at s' = (case ea of None \<Rightarrow> executed_at s | Some t \<Rightarrow> Some t)
           \<and> result s' = (case res of
                            None \<Rightarrow> result s
                          | Some v \<Rightarrow> if v = [] then result s else Some v)
           \<and> retry_count s' = retry_count s \<and> max_retry s' = max_retry s
           \<and> retry_interval s' = retry_interval s \<and> scheduled_at s' = scheduled_at s
           \<and> error_message s' = error_message s \<and> payload s' = payload s
           \<and> api_key_id s' = api_key_id s \<and> schedule_name s' = schedule_name s
           \<and> schedule_type s' = schedule_type s \<and> timezone s' = timezone s
           \<and> created_at s' = created_at s \<and> schedule_id s' = schedule_id s"
proof -
  from assms have sid: "schedule_id s = sid" by (simp add: first_by_id_mem)
  show ?thesis
    using assms sid
    by (cases ea; cases res)
       (simp_all add: update_status_def Let_def first_by_id_commit_same)
qed

theorem C10_update_status_frame_witness:
  "first_by_id [example_schedule] 1 = Some example_schedule
   \<and> (\<exists>s'. update_status [example_schedule] 1 PROCESSING None None 77
              = (commit [example_schedule] s', Some s')
          \<and> status s' = PROCESSING \<and> updated_at s' = 77
          \<and> executed_at s' = None \<and> result s' = None
          \<and> retry_count s' = 0 \<and> max_retry s' = 3 \<and> scheduled_at s' = 40000000)"
proof -
  have h: "first_by_id [example_schedule] 1 = Some example_schedule"
    by (simp add: first_by_id_def example_schedule_def)
  show ?thesis
    using h C10_update_status_frame [OF h, of PROCESSING None None 77]
    by (auto simp: example_schedule_def)
qed

section \<open>Execution unit\<close>

text \<open>
  C5. A schedule with \<open>max_retry = 0\<close>, \<open>retry_count = 0\<close> and no result, whose
  execution attempt fails, ends the unit with status \<open>FAILED\<close>, \<open>retry_count = 1\<close>, the
  failure reason in \<open>error_message\<close> and still no result.
\<close>

theorem C5_first_failure_no_retry:
  assumes "first_by_id db (schedule_id schedule) = Some r"
    and "max_retry r = 0" and "retry_count r = 0" and "result r = None"
    and "send schedule = Raised reason"
  shows "\<exists>r'. first_by_id (execute_single_email_schedule send clk schedule db)
                 (schedule_id schedule) = Some r'
           \<and> status r' = FAILED \<and> retry_count r' = 1
           \<and> error_message r' = Some reason \<and> result r' = None"
proof -
  let ?sid = "schedule_id schedule"
  let ?r1 = "r\<lparr>status := PROCESSING, updated_at := t_processing clk\<rparr>"
  from assms(1) have sid: "schedule_id r = ?sid" by (simp add: first_by_id_mem)
  have u: "update_status db ?sid PROCESSING None None (t_processing clk)
             = (commit db ?r1, Some ?r1)"
    using assms(1) by (simp add: update_status_def Let_def)
  have f1: "first_by_id (commit db ?r1) ?sid = Some ?r1"
    using assms(1) sid by (simp add: first_by_id_commit_same)
  show ?thesis
    using assms(2-5) u f1 sid
    by (simp add: execute_single_email_schedule_def handle_failure_def Let_def
          first_by_id_commit_same)
qed

theorem C5_first_failure_no_retry_witness:
  "first_by_id [no_retry_schedule] (schedule_id no_retry_schedule) = Some no_retry_schedule
   \<and> max_retry no_retry_schedule = 0 \<and> retry_count no_retry_schedule = 0
   \<and> result no_retry_schedule = None
   \<and> (\<exists>r'. first_by_id (execute_single_email_schedule (\<lambda>s. Raised ''refused'')
                           example_clock no_retry_schedule [no_retry_schedule])
                 (schedule_id no_retry_schedule) = Some r'
           \<and> status r' = FAILED \<and> retry_count r' = 1
           \<and> error_message r' = Some ''refused'' \<and> result r' = None)"
proof -
  have h1: "first_by_id [no_retry_schedule] (schedule_id no_retry_schedule)
              = Some no_retry_schedule"
    by (simp add: first_by_id_def)
  have h2: "max_retry no_retry_schedule = 0"
    by (simp add: no_retry_schedule_def)
  have h3: "retry_count no_retry_schedule = 0"
    by (simp add: no_retry_schedule_def example_schedule_def)
  have h4: "result no_retry_schedule = None"
    by (simp add: no_retry_schedule_def example_schedule_def)
  have h5: "(\<lambda>s. Raised ''refused'') no_retry_schedule = Raised ''refused''"
    by simp
  from C5_first_failure_no_retry [of "[no_retry_schedule]" no_retry_schedule
         no_retry_schedule "\<lambda>s. Raised ''refused''" "''refused''" example_clock,
         OF h1 h2 h3 h4 h5]
  show ?thesis using h1 h2 h3 h4 by blast
qed

section \<open>Execution cycle\<close>

text \<open>
  C2 as stated: \<open>retry_count \<le> max_retry\<close> holds after every transition, repeated
  \<^verbatim>\<open>handle_failure\<close> calls included, also for \<open>max_retry = 0\<close>.
  \<^verbatim>\<open>handle_failure\<close> counts the failure before it compares and has no guard on the
  status. So the first failure of a schedule with \<open>max_retry = 0\<close> leaves
  \<open>retry_count = 1\<close>, by a direct call as well as through a whole cycle; a fourth
  failure recorded on a schedule with \<open>max_retry = 3\<close> leaves \<open>retry_count = 4\<close>; and
  two requests made before the units of the first have run register the same schedule
  twice, which with \<open>max_retry = 1\<close> leaves \<open>retry_count = 2\<close>.
\<close>

theorem C2_counterexample:
  "max_retry no_retry_schedule = 0
   \<and> retry_count no_retry_schedule \<le> max_retry no_retry_schedule
   \<and> map_option retry_count
        (snd (handle_failure [no_retry_schedule] 1 ''refused'' 45000000 45000000)) = Some 1
   \<and> map_option max_retry
        (snd (handle_failure [no_retry_schedule] 1 ''refused'' 45000000 45000000)) = Some 0
   \<and> map retry_count (rows (cycles [refused_cycle] no_retry_server)) = [1]
   \<and> map max_retry (rows (cycles [refused_cycle] no_retry_server)) = [0]
   \<and> map retry_count (apply_calls [example_schedule] four_failures) = [4]
   \<and> map max_retry (apply_calls [example_schedule] four_failures) = [3]
   \<and> map retry_count (rows (run_registered send_refused frozen_clock
        (snd (request_execute_pending add_task_ok 45000000
           (snd (request_execute_pending add_task_ok 45000000 one_retry_server)))))) = [2]
   \<and> map max_retry (rows (run_registered send_refused frozen_clock
        (snd (request_execute_pending add_task_ok 45000000
           (snd (request_execute_pending add_task_ok 45000000 one_retry_server)))))) = [1]"
  by (simp add: handle_failure_def first_by_id_def no_retry_schedule_def
        example_schedule_def Let_def commit_def
        cycle_def run_registered_def request_execute_pending_def
        execute_pending_email_schedules_def get_pending_schedules_by_time_and_type_def
        no_retry_server_def refused_cycle_def add_task_ok_def send_refused_def
        frozen_clock_def example_clock_def execute_single_email_schedule_def
        update_status_def four_failures_def three_failures_def one_retry_server_def
        replace_second_microsecond_zero_def timedelta_seconds_def)

text \<open>
  C2, amended. For every schedule in the store and every sequence of store transitions
  (\<^verbatim>\<open>update_status\<close> and \<^verbatim>\<open>handle_failure\<close> calls on this or any other schedule),
  \<open>max_retry\<close> is unchanged and \<open>retry_count\<close> is its initial value plus the number
  of \<^verbatim>\<open>handle_failure\<close> calls made on the schedule; so \<open>retry_count \<le> max_retry\<close>
  holds after the sequence exactly when that number is at most \<open>max_retry\<close> minus the
  initial count. In a store with unique keys and cycles run one after the other (the
  units of a request run before the next request), a schedule with
  \<open>retry_count \<le> max_retry\<close>, strictly while it is \<open>PENDING\<close> (so every schedule
  created with \<open>max_retry \<ge> 1\<close>), keeps both after every sequence of cycles, whatever
  the other schedules are and whatever the dispatch, the sender and the clock do.
\<close>

theorem C2_retry_count_bounded:
  assumes "first_by_id db sid = Some s"
  shows "(\<exists>s'. first_by_id (apply_calls db calls) sid = Some s'
            \<and> max_retry s' = max_retry s
            \<and> retry_count s' = retry_count s + int (failures_on sid calls)
            \<and> (retry_count s' \<le> max_retry s'
                 \<longleftrightarrow> retry_count s + int (failures_on sid calls) \<le> max_retry s))
       \<and> (rows sv = db \<and> registered sv = [] \<and> distinct (map schedule_id db)
            \<and> retry_count s \<le> max_retry s
            \<and> (status s = PENDING \<longrightarrow> retry_count s < max_retry s)
          \<longrightarrow> (\<exists>s'. first_by_id (rows (cycles cs sv)) sid = Some s'
                 \<and> max_retry s' = max_retry s
                 \<and> retry_count s' \<le> max_retry s'
                 \<and> (status s' = PENDING \<longrightarrow> retry_count s' < max_retry s')))"
proof (intro conjI impI)
  from apply_calls_row [OF assms, of calls] obtain s' where
    "first_by_id (apply_calls db calls) sid = Some s'" "max_retry s' = max_retry s"
    "retry_count s' = retry_count s + int (failures_on sid calls)" by blast
  then show "\<exists>s'. first_by_id (apply_calls db calls) sid = Some s'
            \<and> max_retry s' = max_retry s
            \<and> retry_count s' = retry_count s + int (failures_on sid calls)
            \<and> (retry_count s' \<le> max_retry s'
                 \<longleftrightarrow> retry_count s + int (failures_on sid calls) \<le> max_retry s)"
    by auto
next
  assume h: "rows sv = db \<and> registered sv = [] \<and> distinct (map schedule_id db)
            \<and> retry_count s \<le> max_retry s
            \<and> (status s = PENDING \<longrightarrow> retry_count s < max_retry s)"
  then have "retry_ok s" by (simp add: retry_ok_def)
  moreover from h assms have "first_by_id (rows sv) sid = Some s" by simp
  moreover from h have "registered sv = []" "distinct (map schedule_id (rows sv))" by simp_all
  ultimately obtain s' where "first_by_id (rows (cycles cs sv)) sid = Some s'"
    "max_retry s' = max_retry s" "retry_ok s'"
    using cycles_row [of sv sid s cs] by blast
  then show "\<exists>s'. first_by_id (rows (cycles cs sv)) sid = Some s'
                 \<and> max_retry s' = max_retry s
                 \<and> retry_count s' \<le> max_retry s'
                 \<and> (status s' = PENDING \<longrightarrow> retry_count s' < max_retry s')"
    by (auto simp: retry_ok_def)
qed

theorem C2_retry_count_bounded_witness:
  "first_by_id [example_schedule] 1 = Some example_schedule
   \<and> (\<exists>s'. first_by_id (apply_calls [example_schedule] three_failures) 1 = Some s'
          \<and> max_retry s' = 3 \<and> retry_count s' = 3)
   \<and> (\<exists>s'. first_by_id (rows (cycles retry_cycles single_server)) 1 = Some s'
          \<and> max_retry s' = 3 \<and> retry_count s' \<le> max_retry s')
   \<and> map retry_count (rows (cycles retry_cycles single_server)) = [3]
   \<and> map status (rows (cycles retry_cycles single_server)) = [FAILED]"
proof -
  have h: "first_by_id [example_schedule] 1 = Some example_schedule"
    by (simp add: first_by_id_def example_schedule_def)
  have hb: "rows single_server = [example_schedule] \<and> registered single_server = []
            \<and> distinct (map schedule_id [example_schedule])
            \<and> retry_count example_schedule \<le> max_retry example_schedule
            \<and> (status example_schedule = PENDING
                 \<longrightarrow> retry_count example_schedule < max_retry example_schedule)"
    by (simp add: single_server_def example_schedule_def)
  have n: "failures_on 1 three_failures = 3"
    by (simp add: three_failures_def)
  have v: "max_retry example_schedule = 3" "retry_count example_schedule = 0"
    by (simp_all add: example_schedule_def)
  from C2_retry_count_bounded [OF h, of three_failures single_server retry_cycles] hb
  have a: "\<exists>s'. first_by_id (apply_calls [example_schedule] three_failures) 1 = Some s'
          \<and> max_retry s' = 3 \<and> retry_count s' = 3"
    and b: "\<exists>s'. first_by_id (rows (cycles retry_cycles single_server)) 1 = Some s'
          \<and> max_retry s' = 3 \<and> retry_count s' \<le> max_retry s'"
    by (auto simp: n v)
  have e: "map retry_count (rows (cycles retry_cycles single_server)) = [3]
           \<and> map status (rows (cycles retry_cycles single_server)) = [FAILED]"
    by (simp add: retry_cycles_def refused_cycle_at_def clock_at_def single_server_def
          handle_failure_def first_by_id_def example_schedule_def Let_def commit_def
          cycle_def run_registered_def request_execute_pending_def
          execute_pending_email_schedules_def get_pending_schedules_by_time_and_type_def
          add_task_ok_def send_refused_def execute_single_email_schedule_def
          update_status_def replace_second_microsecond_zero_def timedelta_seconds_def)
  from h a b e show ?thesis by blast
qed

text \<open>
  C4 as stated: a second call right after the first starts nothing, because the first
  call moved the due schedules to \<open>PROCESSING\<close>. The handler only registers the
  units and writes nothing: a second call that comes before the registered units have
  run reads the same table and starts the same schedules again.
\<close>

theorem C4_counterexample:
  "executed_count (fst (request_execute_pending add_task_ok 45000000 example_server)) = 2
   \<and> rows (snd (request_execute_pending add_task_ok 45000000 example_server))
       = rows example_server
   \<and> executed_count (fst (request_execute_pending add_task_ok 45000000
        (snd (request_execute_pending add_task_ok 45000000 example_server)))) = 2"
  by (simp add: request_execute_pending_def execute_pending_email_schedules_def
        get_pending_schedules_by_time_and_type_def example_server_def
        example_schedule_def second_schedule_def add_task_ok_def)

text \<open>
  C4, amended. Once the units registered by the first call have run, a second call at
  the same time \<open>now\<close> finds no due schedule and starts none, provided the keys are
  unique, the first call dispatched every due schedule, the clock read by the units is
  not before \<open>now\<close>, and every \<open>retry_interval\<close> is at least 60 seconds (so that a
  re-armed schedule lies after \<open>now\<close>).
\<close>

theorem C4_second_call_after_units:
  assumes "registered sv = []"
    and "distinct (map schedule_id (rows sv))"
    and "\<forall>r\<in>set (rows sv). 60 \<le> retry_interval r"
    and "\<forall>r\<in>set (get_pending_schedules_by_time_and_type (rows sv) now EMAIL).
           add_task r = None"
    and "\<forall>k. now \<le> t_retry (clk k)"
  shows "executed_count (fst (request_execute_pending add_task' now
           (run_registered send clk (snd (request_execute_pending add_task now sv))))) = 0
         \<and> get_pending_schedules_by_time_and_type
             (rows (run_registered send clk (snd (request_execute_pending add_task now sv))))
             now EMAIL = []"
proof -
  let ?due = "get_pending_schedules_by_time_and_type (rows sv) now EMAIL"
  let ?tasks = "filter (\<lambda>s. add_task s = None) ?due"
  let ?sv2 = "run_registered send clk (snd (request_execute_pending add_task now sv))"
  have tasks: "?tasks = ?due" using assms(4) by simp
  have rows2: "rows ?sv2 = run_background_tasks send clk 0 ?due (rows sv)"
    using assms(1) tasks by (simp add: run_registered_def request_rows request_registered)
  have d: "distinct ?due"
    using due_distinct [OF assms(2), of "\<lambda>s. True" now EMAIL] by simp
  have sub: "set ?due \<subseteq> set (rows sv)"
    by (auto simp: get_pending_schedules_by_time_and_type_def)
  have nd: "\<not> (scheduled_at r' \<le> now \<and> status r' = PENDING \<and> schedule_type r' = EMAIL)"
    if "r' \<in> set (rows ?sv2)" for r'
  proof -
    from that rows2 have "r' \<in> set (run_background_tasks send clk 0 ?due (rows sv))" by simp
    from run_tasks_rows [OF assms(2) d sub this] obtain r where
      r: "r \<in> set (rows sv)"
      and step: "if r \<in> set ?due then (\<exists>k. after_attempt (clk k) r r') else r' = r"
      by blast
    show ?thesis
    proof (cases "r \<in> set ?due")
      case True
      with step obtain k where "after_attempt (clk k) r r'" by auto
      moreover from r assms(3) have "60 \<le> retry_interval r" by blast
      moreover from assms(5) have "now \<le> t_retry (clk k)" by blast
      ultimately have "\<not> (scheduled_at r' \<le> now \<and> status r' = PENDING)"
        by (rule not_due_after_attempt)
      then show ?thesis by blast
    next
      case False
      with step have "r' = r" by simp
      with False r show ?thesis
        by (simp add: get_pending_schedules_by_time_and_type_def)
    qed
  qed
  then have empty: "get_pending_schedules_by_time_and_type (rows ?sv2) now EMAIL = []"
    by (auto simp: get_pending_schedules_by_time_and_type_def filter_empty_conv)
  then have "executed_count (fst (request_execute_pending add_task' now ?sv2)) = 0"
    by (simp add: request_execute_pending_def handler_eq Let_def)
  with empty show ?thesis by blast
qed

theorem C4_second_call_after_units_witness:
  "registered example_server = []
   \<and> distinct (map schedule_id (rows example_server))
   \<and> list_all (\<lambda>r. 60 \<le> retry_interval r) (rows example_server)
   \<and> executed_count (fst (request_execute_pending add_task_ok 45000000 example_server)) = 2
   \<and> executed_count (fst (request_execute_pending add_task_ok 45000000
           (run_registered send_refused frozen_clock
              (snd (request_execute_pending add_task_ok 45000000 example_server))))) = 0"
proof -
  have h1: "registered example_server = []"
    by (simp add: example_server_def)
  have h2: "distinct (map schedule_id (rows example_server))"
    by (simp add: example_server_def example_schedule_def second_schedule_def)
  have h3: "\<forall>r\<in>set (rows example_server). 60 \<le> retry_interval r"
    by (simp add: example_server_def example_schedule_def second_schedule_def)
  have h3': "list_all (\<lambda>r. 60 \<le> retry_interval r) (rows example_server)"
    using h3 by (simp add: list_all_iff)
  have h4: "\<forall>r\<in>set (get_pending_schedules_by_time_and_type (rows example_server)
                        45000000 EMAIL). add_task_ok r = None"
    by (simp add: add_task_ok_def)
  have h5: "\<forall>k. 45000000 \<le> t_retry (frozen_clock k)"
    by (simp add: frozen_clock_def example_clock_def)
  have first: "executed_count (fst (request_execute_pending add_task_ok 45000000
                 example_server)) = 2"
    by (simp add: request_execute_pending_def execute_pending_email_schedules_def
          get_pending_schedules_by_time_and_type_def example_server_def
          example_schedule_def second_schedule_def add_task_ok_def)
  from C4_second_call_after_units [where sv = example_server and now = 45000000
         and add_task = add_task_ok and clk = frozen_clock and send = send_refused
         and add_task' = add_task_ok, OF h1 h2 h3 h4 h5]
  show ?thesis using h1 h2 h3' first by blast
qed

text \<open>
  C8. When the dispatch of a due schedule raises, the schedule is reported as failed in
  the details and counted in \<open>failed_count\<close>; the request leaves the table as it
  was and does not register a unit for the schedule; after the units of the others have
  run, its row is still the same, and it is due again at any later time.
\<close>

theorem C8_dispatch_failure_frame:
  assumes "distinct (map schedule_id (rows sv))"
    and "registered sv = []"
    and "s \<in> set (get_pending_schedules_by_time_and_type (rows sv) now EMAIL)"
    and "add_task s = Some e"
  shows "FailedToStart (schedule_id s) (schedule_name s) e
           \<in> set (details (fst (request_execute_pending add_task now sv)))
         \<and> failed_count (fst (request_execute_pending add_task now sv))
             = int (length (filter (\<lambda>r. add_task r \<noteq> None)
                      (get_pending_schedules_by_time_and_type (rows sv) now EMAIL)))
         \<and> 1 \<le> failed_count (fst (request_execute_pending add_task now sv))
         \<and> rows (snd (request_execute_pending add_task now sv)) = rows sv
         \<and> s \<notin> set (registered (snd (request_execute_pending add_task now sv)))
         \<and> first_by_id (rows (run_registered send clk
                (snd (request_execute_pending add_task now sv)))) (schedule_id s) = Some s
         \<and> (now \<le> now' \<longrightarrow>
              s \<in> set (get_pending_schedules_by_time_and_type
                (rows (run_registered send clk
                   (snd (request_execute_pending add_task now sv)))) now' EMAIL))"
proof -
  let ?due = "get_pending_schedules_by_time_and_type (rows sv) now EMAIL"
  let ?tasks = "filter (\<lambda>r. add_task r = None) ?due"
  let ?req = "request_execute_pending add_task now sv"
  have resp: "fst ?req = \<lparr>executed_count = int (length ?tasks),
                 failed_count = int (length (filter (\<lambda>r. add_task r \<noteq> None) ?due)),
                 execution_time = now, details = map (detail_of add_task) ?due\<rparr>"
    by (simp add: request_execute_pending_def handler_eq Let_def)
  have sv1: "snd ?req = sv\<lparr>registered := ?tasks\<rparr>"
    using assms(2) by (simp add: request_execute_pending_def handler_eq Let_def)
  from assms(3) have s_db: "s \<in> set (rows sv)" and s_due: "scheduled_at s \<le> now"
    "status s = PENDING" "schedule_type s = EMAIL"
    by (auto simp: get_pending_schedules_by_time_and_type_def)
  have "detail_of add_task s = FailedToStart (schedule_id s) (schedule_name s) e"
    using assms(4) by (simp add: detail_of_def)
  with assms(3) have c1: "FailedToStart (schedule_id s) (schedule_name s) e
      \<in> set (details (fst ?req))"
    by (force simp: resp)
  have c2: "failed_count (fst ?req) = int (length (filter (\<lambda>r. add_task r \<noteq> None) ?due))"
    by (simp add: resp)
  from assms(3,4) have "s \<in> set (filter (\<lambda>r. add_task r \<noteq> None) ?due)" by simp
  then have "0 < length (filter (\<lambda>r. add_task r \<noteq> None) ?due)"
    by (rule length_pos_if_in_set)
  then have "(1::int) \<le> int (length (filter (\<lambda>r. add_task r \<noteq> None) ?due))"
    by linarith
  with c2 have c3: "1 \<le> failed_count (fst ?req)" by (simp only:)
  have c4: "rows (snd ?req) = rows sv" by (simp add: sv1)
  have c5: "s \<notin> set (registered (snd ?req))" using assms(4) by (simp add: sv1)
  have ids: "\<forall>t\<in>set ?tasks. schedule_id t \<noteq> schedule_id s"
  proof
    fix t assume t: "t \<in> set ?tasks"
    then have "t \<in> set (rows sv)" and "add_task t = None"
      by (auto simp: get_pending_schedules_by_time_and_type_def)
    with assms(4) have "t \<noteq> s" by auto
    with distinct_ids_inj [OF assms(1) \<open>t \<in> set (rows sv)\<close> s_db]
    show "schedule_id t \<noteq> schedule_id s" by blast
  qed
  have rows2: "rows (run_registered send clk (snd ?req))
                 = run_background_tasks send clk 0 ?tasks (rows sv)"
    by (simp add: run_registered_def sv1)
  have c6: "first_by_id (rows (run_registered send clk (snd ?req))) (schedule_id s) = Some s"
    using ids s_db assms(1) by (simp add: rows2 run_other_row first_by_id_distinct)
  have "s \<in> set (rows (run_registered send clk (snd ?req)))"
    using ids s_db by (simp add: rows2 run_keeps_other)
  with s_due have c7: "now \<le> now' \<longrightarrow> s \<in> set (get_pending_schedules_by_time_and_type
      (rows (run_registered send clk (snd ?req))) now' EMAIL)"
    by (simp add: get_pending_schedules_by_time_and_type_def)
  from c1 c2 c3 c4 c5 c6 c7 show ?thesis by blast
qed

theorem C8_dispatch_failure_frame_witness:
  "distinct (map schedule_id (rows example_server))
   \<and> registered example_server = []
   \<and> example_schedule
        \<in> set (get_pending_schedules_by_time_and_type (rows example_server) 45000000 EMAIL)
   \<and> add_task_first_fails example_schedule = Some ''closed''
   \<and> FailedToStart 1 ''welcome'' ''closed''
        \<in> set (details (fst (request_execute_pending add_task_first_fails 45000000
                               example_server)))
   \<and> first_by_id (rows (run_registered send_refused frozen_clock
          (snd (request_execute_pending add_task_first_fails 45000000 example_server)))) 1
       = Some example_schedule
   \<and> example_schedule \<in> set (get_pending_schedules_by_time_and_type
          (rows (run_registered send_refused frozen_clock
             (snd (request_execute_pending add_task_first_fails 45000000 example_server))))
          105000000 EMAIL)"
proof -
  have h1: "distinct (map schedule_id (rows example_server))"
    by (simp add: example_server_def example_schedule_def second_schedule_def)
  have h2: "registered example_server = []"
    by (simp add: example_server_def)
  have h3: "example_schedule
      \<in> set (get_pending_schedules_by_time_and_type (rows example_server) 45000000 EMAIL)"
    by (simp add: get_pending_schedules_by_time_and_type_def example_server_def
          example_schedule_def)
  have h4: "add_task_first_fails example_schedule = Some ''closed''"
    by (simp add: add_task_first_fails_def example_schedule_def)
  have i: "schedule_id example_schedule = 1" "schedule_name example_schedule = ''welcome''"
    by (simp_all add: example_schedule_def)
  from C8_dispatch_failure_frame [where sv = example_server and s = example_schedule
         and now = 45000000 and add_task = add_task_first_fails and e = "''closed''"
         and send = send_refused and clk = frozen_clock and now' = 105000000,
         OF h1 h2 h3 h4]
  show ?thesis using h1 h2 h3 h4 by (simp add: i)
qed

section \<open>Sender address\<close>



end
